theory Spec2Isabelle
  imports Complex_Main
begin

section \<open>JavaScript values\<close>

text \<open>
  A JavaScript string is a sequence of UTF-16 code units; it is modelled as the list of
  its code units. \<open>js\<close> turns an Isabelle literal into such a string.
\<close>

type_synonym jstring = "nat list"

definition js :: "string \<Rightarrow> jstring" where
  "js s = map of_char s"

text \<open>
  The values the two modules handle: the primitives, arrays, plain objects (their own
  properties in insertion order) and \<open>Error\<close> instances, of which only the message is
  kept. Functions are not values of the model. Numbers are kept exactly (rounding to
  binary64 is not modelled).
\<close>

datatype jsval =
    JUndefined
  | JNull
  | JBool bool
  | JNum rat
  | JStr jstring
  | JArr "jsval list"
  | JObj "(jstring \<times> jsval) list"
  | JError jstring

text \<open>
  What a rejected promise or a \<open>throw\<close> carries: a value thrown by the program or by a
  collaborator, or an error raised by the runtime itself (its message is not modelled).
\<close>

datatype failure = Thrown jsval | TypeError | SyntaxError

datatype 'a outcome = Returns 'a | Throws failure

fun truthy :: "jsval \<Rightarrow> bool" where
  "truthy JUndefined = False"
| "truthy JNull = False"
| "truthy (JBool b) = b"
| "truthy (JNum r) = (r \<noteq> 0)"
| "truthy (JStr s) = (s \<noteq> [])"
| "truthy (JArr xs) = True"
| "truthy (JObj kvs) = True"
| "truthy (JError m) = True"

fun is_string :: "jsval \<Rightarrow> bool" where
  "is_string (JStr s) = True"
| "is_string v = False"

fun string_of :: "jsval \<Rightarrow> jstring" where
  "string_of (JStr s) = s"
| "string_of v = []"

text \<open>
  \<open>v.k\<close> for a property name \<open>k\<close> that is neither an array index nor the name of a
  prototype member: reading a property of \<open>undefined\<close> or \<open>null\<close> raises a TypeError,
  a missing property reads as \<open>undefined\<close>.
\<close>

fun get_prop :: "jsval \<Rightarrow> jstring \<Rightarrow> jsval outcome" where
  "get_prop JUndefined k = Throws TypeError"
| "get_prop JNull k = Throws TypeError"
| "get_prop (JObj kvs) k = Returns (case map_of kvs k of None \<Rightarrow> JUndefined | Some v \<Rightarrow> v)"
| "get_prop (JError m) k = Returns (if k = js ''message'' then JStr m else JUndefined)"
| "get_prop (JStr s) k = Returns (if k = js ''length'' then JNum (of_nat (length s)) else JUndefined)"
| "get_prop (JArr xs) k = Returns (if k = js ''length'' then JNum (of_nat (length xs)) else JUndefined)"
| "get_prop (JBool b) k = Returns JUndefined"
| "get_prop (JNum r) k = Returns JUndefined"

text \<open>\<open>String.prototype.includes\<close>: the argument occurs as a contiguous substring.\<close>

fun str_includes :: "jstring \<Rightarrow> jstring \<Rightarrow> bool" where
  "str_includes [] sub = (sub = [])"
| "str_includes (c # cs) sub = (take (length sub) (c # cs) = sub \<or> str_includes cs sub)"

text \<open>
  The call \<open>m.includes(arg)\<close> on an arbitrary value \<open>m\<close>: strings search for a substring,
  arrays for an element; every other value has no callable \<open>includes\<close>, and the call
  raises a TypeError.
\<close>

fun includes_call :: "jsval \<Rightarrow> jstring \<Rightarrow> bool outcome" where
  "includes_call (JStr s) arg = Returns (str_includes s arg)"
| "includes_call (JArr xs) arg = Returns (List.member xs (JStr arg))"
| "includes_call v arg = Throws TypeError"

text \<open>\<open>Array.prototype.join\<close> on an array of strings (of lists, in general).\<close>

fun join :: "'a list \<Rightarrow> 'a list list \<Rightarrow> 'a list" where
  "join sep [] = []"
| "join sep [x] = x"
| "join sep (x # y # ys) = x @ sep @ join sep (y # ys)"

text \<open>\<open>String.prototype.split\<close> with a separator of one code unit.\<close>

fun split_on :: "nat \<Rightarrow> jstring \<Rightarrow> jstring list" where
  "split_on sep [] = [[]]"
| "split_on sep (c # cs) =
     (if c = sep then [] # split_on sep cs
      else (case split_on sep cs of [] \<Rightarrow> [[c]] | p # ps \<Rightarrow> (c # p) # ps))"

section \<open>transcript.js\<close>

text \<open>
  A caption fragment as the captions provider supplies it; only its \<open>text\<close> (here \<open>caption_text\<close>) is read. The
  provider \<open>getSubtitles\<close> is an external collaborator: it is a parameter of the model,
  mapping the query to what the awaited promise yields, and every query made is logged.
\<close>

record caption =
  caption_text :: jstring

record subtitle_query =
  videoID :: jstring
  lang :: jstring

datatype captions_reply =
    Captions "caption list"
  | NoValue
  | Fails jsval

definition error_object :: "string \<Rightarrow> jsval" where
  "error_object msg = JObj [(js ''error'', JStr (js msg))]"

text \<open>The \<open>catch\<close> block of \<open>getYouTubeTranscript\<close> (lines 31 to 40).\<close>

definition handle_error :: "jsval \<Rightarrow> jsval outcome" where
  "handle_error error =
     (case get_prop error (js ''message'') of
        Throws f \<Rightarrow> Throws f
      | Returns m \<Rightarrow>
          (case includes_call m (js ''No captions'') of
             Throws f \<Rightarrow> Throws f
           | Returns True \<Rightarrow>
               Returns (error_object
                 ''No captions available for this video. Please try a video with subtitles.'')
           | Returns False \<Rightarrow>
               (case includes_call m (js ''Invalid video ID'') of
                  Throws f \<Rightarrow> Throws f
                | Returns True \<Rightarrow> Returns (error_object ''Invalid YouTube video ID provided'')
                | Returns False \<Rightarrow>
                    Returns (error_object
                      ''Failed to extract transcript. Please try another video.''))))"

text \<open>
  \<open>getYouTubeTranscript\<close> (lines 3 to 41). The result is the settled promise together
  with the queries sent to the provider.
\<close>

definition getYouTubeTranscript ::
  "(subtitle_query \<Rightarrow> captions_reply) \<Rightarrow> jsval \<Rightarrow> jsval outcome \<times> subtitle_query list" where
  "getYouTubeTranscript getSubtitles videoId =
     (if \<not> truthy videoId \<or> \<not> is_string videoId then
        (handle_error (JError (js ''Invalid video ID provided'')), [])
      else
        (let query = \<lparr>videoID = string_of videoId, lang = js ''en''\<rparr> in
         (case getSubtitles query of
            Fails e \<Rightarrow> (handle_error e, [query])
          | NoValue \<Rightarrow>
              (handle_error (JError (js ''No captions found for this video'')), [query])
          | Captions captions \<Rightarrow>
              (if length captions = 0 then
                 (handle_error (JError (js ''No captions found for this video'')), [query])
               else
                 (let transcript = join (js '' '') (map caption_text captions) in
                  if length (split_on 32 transcript) < 50 then
                    (Returns (error_object
                       ''Not enough reliable information in the transcript''), [query])
                  else (Returns (JStr transcript), [query]))))))"

text \<open>
  The word count in the specification's words: the text is split on whitespace, and the
  words are the maximal runs of characters that are not whitespace. \<open>is_space\<close> is the
  class \<open>\s\<close> of ECMAScript regular expressions (white space and line terminators).
\<close>

definition is_space :: "nat \<Rightarrow> bool" where
  "is_space c \<longleftrightarrow>
     c \<in> {9, 10, 11, 12, 13, 32, 160, 5760, 8232, 8233, 8239, 8287, 12288, 65279}
     \<or> (8192 \<le> c \<and> c \<le> 8202)"

function whitespace_words :: "jstring \<Rightarrow> jstring list" where
  "whitespace_words [] = []"
| "whitespace_words (c # cs) =
     (if is_space c then whitespace_words cs
      else (takeWhile (\<lambda>x. \<not> is_space x) (c # cs))
             # whitespace_words (dropWhile (\<lambda>x. \<not> is_space x) cs))"
  by pat_completeness auto
termination
  by (relation "measure length") (auto simp: le_imp_less_Suc length_dropWhile_le)

section \<open>server.js: locating the candidate array\<close>

text \<open>
  \<open>content.match(/\[[\s\S]*\]/)\<close>: the start positions are tried from the left; at an
  opening bracket the greedy \<open>[\s\S]*\<close> takes the rest of the text and backs off to the
  last closing bracket. The result is the matched text \<open>jsonMatch[0]\<close>.
\<close>

definition upto_last :: "nat \<Rightarrow> jstring \<Rightarrow> jstring" where
  "upto_last r cs = rev (dropWhile (\<lambda>x. x \<noteq> r) (rev cs))"

fun array_match :: "jstring \<Rightarrow> jstring option" where
  "array_match [] = None"
| "array_match (c # cs) =
     (if c = 91 \<and> 93 \<in> set cs then Some (c # upto_last 93 cs) else array_match cs)"

text \<open>
  \<open>content.match(/```(?:json)?\s*(\[[\s\S]*?\])\s*```/)\<close>, of which the code keeps the
  group. After the fence the optional tag is taken when it is there (without it the
  next character would have to be whitespace or an opening bracket), \<open>\s*\<close> skips the
  whole run of whitespace (what follows it is not whitespace), and the lazy
  \<open>[\s\S]*?\<close> stops at the first closing bracket after which \<open>\s*```\<close> matches.
\<close>

definition fence :: jstring where
  "fence = [96, 96, 96]"

fun lazy_close :: "jstring \<Rightarrow> jstring option" where
  "lazy_close [] = None"
| "lazy_close (c # cs) =
     (if c = 93 \<and> take 3 (dropWhile is_space cs) = fence then Some [c]
      else map_option (\<lambda>g. c # g) (lazy_close cs))"

definition fence_group :: "jstring \<Rightarrow> jstring option" where
  "fence_group r =
     (case dropWhile is_space r of
        [] \<Rightarrow> None
      | c # cs \<Rightarrow> if c = 91 then map_option (\<lambda>g. c # g) (lazy_close cs) else None)"

definition fence_at :: "jstring \<Rightarrow> jstring option" where
  "fence_at s =
     (if take 3 s = fence then
        (if take 4 (drop 3 s) = js ''json'' then
           (case fence_group (drop 7 s) of
              Some g \<Rightarrow> Some g
            | None \<Rightarrow> fence_group (drop 3 s))
         else fence_group (drop 3 s))
      else None)"

fun fence_match :: "jstring \<Rightarrow> jstring option" where
  "fence_match [] = None"
| "fence_match (c # cs) =
     (case fence_at (c # cs) of Some g \<Rightarrow> Some g | None \<Rightarrow> fence_match cs)"

section \<open>JSON.parse\<close>

text \<open>
  \<open>JSON.parse\<close> is a built-in of the runtime. It is modelled after the JSON grammar of
  ECMA-262 and ECMA-404: a lexical grammar (tokens, separated by the four JSON
  whitespace characters) and a syntactic grammar over the tokens. \<open>None\<close> stands for the
  SyntaxError that \<open>JSON.parse\<close> throws.
\<close>

datatype token =
    TLBrace | TRBrace | TLBracket | TRBracket | TColon | TComma
  | TString jstring | TNumber rat | TTrue | TFalse | TNull

definition json_ws :: "nat \<Rightarrow> bool" where
  "json_ws c \<longleftrightarrow> c = 9 \<or> c = 10 \<or> c = 13 \<or> c = 32"

definition is_digit :: "nat \<Rightarrow> bool" where
  "is_digit c \<longleftrightarrow> 48 \<le> c \<and> c \<le> 57"

definition hex_value :: "nat \<Rightarrow> nat option" where
  "hex_value c =
     (if 48 \<le> c \<and> c \<le> 57 then Some (c - 48)
      else if 65 \<le> c \<and> c \<le> 70 then Some (c - 55)
      else if 97 \<le> c \<and> c \<le> 102 then Some (c - 87)
      else None)"

text \<open>The character an escape \<open>\e\<close> stands for (\<open>\u\<close> apart).\<close>

definition unescape :: "nat \<Rightarrow> nat option" where
  "unescape e =
     (if e = 34 then Some 34
      else if e = 92 then Some 92
      else if e = 47 then Some 47
      else if e = 98 then Some 8
      else if e = 102 then Some 12
      else if e = 110 then Some 10
      else if e = 114 then Some 13
      else if e = 116 then Some 9
      else None)"

definition unicode_escape :: "nat \<Rightarrow> nat \<Rightarrow> nat \<Rightarrow> nat \<Rightarrow> nat option" where
  "unicode_escape h1 h2 h3 h4 =
     (case (hex_value h1, hex_value h2, hex_value h3, hex_value h4) of
        (Some a, Some b, Some c, Some d) \<Rightarrow> Some (((a * 16 + b) * 16 + c) * 16 + d)
      | _ \<Rightarrow> None)"

definition cons_char :: "nat \<Rightarrow> (jstring \<times> jstring) option \<Rightarrow> (jstring \<times> jstring) option" where
  "cons_char c r = map_option (\<lambda>(s, rest). (c # s, rest)) r"

text \<open>
  The characters of a string after its opening quote: the decoded string and the text
  after the closing quote. Control characters, an unknown escape and a missing closing
  quote are errors.
\<close>

fun lex_string :: "jstring \<Rightarrow> (jstring \<times> jstring) option" where
  "lex_string [] = None"
| "lex_string (c # cs) =
     (if c = 34 then Some ([], cs)
      else if c = 92 then
        (case cs of
           [] \<Rightarrow> None
         | e # cs' \<Rightarrow>
             (if e = 117 then
                (case cs' of
                   h1 # h2 # h3 # h4 # cs'' \<Rightarrow>
                     (case unicode_escape h1 h2 h3 h4 of
                        None \<Rightarrow> None
                      | Some u \<Rightarrow> cons_char u (lex_string cs''))
                 | _ \<Rightarrow> None)
              else
                (case unescape e of
                   None \<Rightarrow> None
                 | Some u \<Rightarrow> cons_char u (lex_string cs'))))
      else if c < 32 then None
      else cons_char c (lex_string cs))"

text \<open>
  The value of a number literal
  \<open>-?(0|[1-9][0-9]*)(\.[0-9]+)?([eE][+-]?[0-9]+)?\<close>; \<open>None\<close> when the text is not one.
\<close>

definition digits_value :: "jstring \<Rightarrow> nat" where
  "digits_value ds = foldl (\<lambda>a d. 10 * a + (d - 48)) 0 ds"

definition number_value :: "jstring \<Rightarrow> rat option" where
  "number_value s =
     (let neg = (s \<noteq> [] \<and> hd s = 45);
          s1 = (if neg then tl s else s);
          ip = takeWhile is_digit s1;
          s2 = dropWhile is_digit s1;
          has_frac = (s2 \<noteq> [] \<and> hd s2 = 46);
          fp = (if has_frac then takeWhile is_digit (tl s2) else []);
          s3 = (if has_frac then dropWhile is_digit (tl s2) else s2);
          has_exp = (s3 \<noteq> [] \<and> (hd s3 = 101 \<or> hd s3 = 69));
          s4 = (if has_exp then tl s3 else s3);
          eneg = (has_exp \<and> s4 \<noteq> [] \<and> hd s4 = 45);
          s5 = (if has_exp \<and> s4 \<noteq> [] \<and> (hd s4 = 45 \<or> hd s4 = 43) then tl s4 else s4);
          ep = (if has_exp then takeWhile is_digit s5 else []);
          s6 = (if has_exp then dropWhile is_digit s5 else s5)
      in if ip = [] \<or> (hd ip = 48 \<and> 1 < length ip) \<or> (has_frac \<and> fp = [])
            \<or> (has_exp \<and> ep = []) \<or> s6 \<noteq> []
         then None
         else Some ((if neg then - 1 else 1)
                    * (of_nat (digits_value (ip @ fp)) / 10 ^ length fp)
                    * (if eneg then 1 / 10 ^ digits_value ep else 10 ^ digits_value ep)))"

text \<open>The characters a number literal is made of.\<close>

definition num_char :: "nat \<Rightarrow> bool" where
  "num_char c \<longleftrightarrow> is_digit c \<or> c = 43 \<or> c = 45 \<or> c = 46 \<or> c = 69 \<or> c = 101"

definition push :: "token \<Rightarrow> token list option \<Rightarrow> token list option" where
  "push t r = map_option (\<lambda>ts. t # ts) r"

lemma lex_string_shorter: "lex_string cs = Some (s, rest) \<Longrightarrow> length rest < length cs"
proof (induction "length cs" arbitrary: cs s rest rule: less_induct)
  case less
  have shorter: "\<And>cs' s'. lex_string cs' = Some (s', rest) \<Longrightarrow> length cs' < length cs
                   \<Longrightarrow> length rest < length cs'"
    using less.hyps by blast
  show ?case
  proof (cases cs)
    case Nil
    with less.prems show ?thesis by simp
  next
    case (Cons c cs1)
    with less.prems show ?thesis
      by (auto simp: cons_char_def split: if_splits list.splits option.splits dest!: shorter)
  qed
qed

function tokenize :: "jstring \<Rightarrow> token list option" where
  "tokenize [] = Some []"
| "tokenize (c # cs) =
     (if json_ws c then tokenize cs
      else if c = 123 then push TLBrace (tokenize cs)
      else if c = 125 then push TRBrace (tokenize cs)
      else if c = 91 then push TLBracket (tokenize cs)
      else if c = 93 then push TRBracket (tokenize cs)
      else if c = 58 then push TColon (tokenize cs)
      else if c = 44 then push TComma (tokenize cs)
      else if c = 34 then
        (case lex_string cs of
           None \<Rightarrow> None
         | Some (s, rest) \<Rightarrow> push (TString s) (tokenize rest))
      else if c = 45 \<or> is_digit c then
        (case number_value (c # takeWhile num_char cs) of
           None \<Rightarrow> None
         | Some r \<Rightarrow> push (TNumber r) (tokenize (dropWhile num_char cs)))
      else if take 4 (c # cs) = js ''true'' then push TTrue (tokenize (drop 3 cs))
      else if take 5 (c # cs) = js ''false'' then push TFalse (tokenize (drop 4 cs))
      else if take 4 (c # cs) = js ''null'' then push TNull (tokenize (drop 3 cs))
      else None)"
  by pat_completeness auto
termination
  by (relation "measure length")
     (auto simp: le_imp_less_Suc length_dropWhile_le dest: lex_string_shorter)

text \<open>
  The syntactic grammar, as a pushdown automaton over the tokens: the stack holds the
  arrays and objects that are still open, and the state says what may come next.
  A repeated key keeps its first position and takes the last value.
\<close>

datatype frame =
    ArrayFrame "jsval list"
  | ObjectFrame "(jstring \<times> jsval) list" "jstring option"

datatype expect = Value | ValueOrClose | CommaOrClose | Key | KeyOrClose | Colon

datatype pstate = Expecting expect "frame list" | Finished jsval

fun obj_put :: "jstring \<Rightarrow> jsval \<Rightarrow> (jstring \<times> jsval) list \<Rightarrow> (jstring \<times> jsval) list" where
  "obj_put k v [] = [(k, v)]"
| "obj_put k v (p # ps) = (if fst p = k then (k, v) # ps else p # obj_put k v ps)"

fun complete_value :: "jsval \<Rightarrow> frame list \<Rightarrow> pstate option" where
  "complete_value v [] = Some (Finished v)"
| "complete_value v (ArrayFrame xs # st) = Some (Expecting CommaOrClose (ArrayFrame (xs @ [v]) # st))"
| "complete_value v (ObjectFrame kvs (Some k) # st) =
     Some (Expecting CommaOrClose (ObjectFrame (obj_put k v kvs) None # st))"
| "complete_value v (ObjectFrame kvs None # st) = None"

definition value_ok :: "expect \<Rightarrow> bool" where
  "value_ok e \<longleftrightarrow> e = Value \<or> e = ValueOrClose"

fun step :: "pstate \<Rightarrow> token \<Rightarrow> pstate option" where
  "step (Finished v) t = None"
| "step (Expecting e st) (TString s) =
     (if value_ok e then complete_value (JStr s) st
      else if e = Key \<or> e = KeyOrClose then
        (case st of
           ObjectFrame kvs None # st' \<Rightarrow> Some (Expecting Colon (ObjectFrame kvs (Some s) # st'))
         | _ \<Rightarrow> None)
      else None)"
| "step (Expecting e st) (TNumber r) = (if value_ok e then complete_value (JNum r) st else None)"
| "step (Expecting e st) TTrue = (if value_ok e then complete_value (JBool True) st else None)"
| "step (Expecting e st) TFalse = (if value_ok e then complete_value (JBool False) st else None)"
| "step (Expecting e st) TNull = (if value_ok e then complete_value JNull st else None)"
| "step (Expecting e st) TLBracket =
     (if value_ok e then Some (Expecting ValueOrClose (ArrayFrame [] # st)) else None)"
| "step (Expecting e st) TLBrace =
     (if value_ok e then Some (Expecting KeyOrClose (ObjectFrame [] None # st)) else None)"
| "step (Expecting e st) TRBracket =
     (if e = ValueOrClose \<or> e = CommaOrClose then
        (case st of ArrayFrame xs # st' \<Rightarrow> complete_value (JArr xs) st' | _ \<Rightarrow> None)
      else None)"
| "step (Expecting e st) TRBrace =
     (if e = KeyOrClose \<or> e = CommaOrClose then
        (case st of ObjectFrame kvs None # st' \<Rightarrow> complete_value (JObj kvs) st' | _ \<Rightarrow> None)
      else None)"
| "step (Expecting e st) TComma =
     (if e = CommaOrClose then
        (case st of
           ArrayFrame xs # st' \<Rightarrow> Some (Expecting Value st)
         | ObjectFrame kvs k # st' \<Rightarrow> Some (Expecting Key st)
         | [] \<Rightarrow> None)
      else None)"
| "step (Expecting e st) TColon = (if e = Colon then Some (Expecting Value st) else None)"

fun run :: "pstate option \<Rightarrow> token list \<Rightarrow> pstate option" where
  "run s [] = s"
| "run None (t # ts) = None"
| "run (Some s) (t # ts) = run (step s t) ts"

definition JSON_parse :: "jstring \<Rightarrow> jsval option" where
  "JSON_parse txt =
     (case tokenize txt of
        None \<Rightarrow> None
      | Some ts \<Rightarrow>
          (case run (Some (Expecting Value [])) ts of
             Some (Finished v) \<Rightarrow> Some v
           | _ \<Rightarrow> None))"

section \<open>server.js: the repair pass\<close>

text \<open>
  The six steps of lines 108 to 114, each a global replacement scanning from the left
  and resuming after each match.

  \<open>.replace(/,(\s*[}\]])/g, '$1')\<close>: a comma, the whitespace after it and a closing
  brace or bracket are replaced by the whitespace and the closing character.
\<close>

lemma dropWhile_Cons_shorter: "dropWhile P cs = d # rest \<Longrightarrow> length rest < length cs"
  using length_dropWhile_le [of P cs] by simp

function strip_trailing_commas :: "jstring \<Rightarrow> jstring" where
  "strip_trailing_commas [] = []"
| "strip_trailing_commas (c # cs) =
     (if c = 44 then
        (case dropWhile is_space cs of
           [] \<Rightarrow> c # strip_trailing_commas cs
         | d # rest \<Rightarrow>
             (if d = 125 \<or> d = 93 then takeWhile is_space cs @ d # strip_trailing_commas rest
              else c # strip_trailing_commas cs))
      else c # strip_trailing_commas cs)"
  by pat_completeness auto
termination
  by (relation "measure length") (auto dest: dropWhile_Cons_shorter)

text \<open>\<open>.replace(/\\"/g, '"')\<close>: a backslash before a quote is dropped.\<close>

fun unescape_quotes :: "jstring \<Rightarrow> jstring" where
  "unescape_quotes [] = []"
| "unescape_quotes (c # cs) =
     (case cs of
        [] \<Rightarrow> [c]
      | d # rest \<Rightarrow>
          (if c = 92 \<and> d = 34 then d # unescape_quotes rest else c # unescape_quotes cs))"

text \<open>
  \<open>.replace(/"\s*\n\s*"/g, '" "')\<close>: two quotes with only whitespace between them, a
  newline included, become two quotes with a space between them.
\<close>

function fix_line_breaks :: "jstring \<Rightarrow> jstring" where
  "fix_line_breaks [] = []"
| "fix_line_breaks (c # cs) =
     (if c = 34 then
        (case dropWhile is_space cs of
           [] \<Rightarrow> c # fix_line_breaks cs
         | d # rest \<Rightarrow>
             (if d = 34 \<and> 10 \<in> set (takeWhile is_space cs)
              then 34 # 32 # 34 # fix_line_breaks rest
              else c # fix_line_breaks cs))
      else c # fix_line_breaks cs)"
  by pat_completeness auto
termination
  by (relation "measure length") (auto dest: dropWhile_Cons_shorter)

text \<open>\<open>.replace(/\n/g, ' ')\<close>\<close>

definition newlines_to_spaces :: "jstring \<Rightarrow> jstring" where
  "newlines_to_spaces s = map (\<lambda>c. if c = 10 then 32 else c) s"

text \<open>\<open>.replace(/\s+/g, ' ')\<close>\<close>

function normalize_whitespace :: "jstring \<Rightarrow> jstring" where
  "normalize_whitespace [] = []"
| "normalize_whitespace (c # cs) =
     (if is_space c then 32 # normalize_whitespace (dropWhile is_space cs)
      else c # normalize_whitespace cs)"
  by pat_completeness auto
termination
  by (relation "measure length") (auto simp: le_imp_less_Suc length_dropWhile_le)

text \<open>\<open>.trim()\<close>\<close>

definition trim :: "jstring \<Rightarrow> jstring" where
  "trim s = rev (dropWhile is_space (rev (dropWhile is_space s)))"

definition repair :: "jstring \<Rightarrow> jstring" where
  "repair jsonString =
     trim (normalize_whitespace (newlines_to_spaces (fix_line_breaks
       (unescape_quotes (strip_trailing_commas jsonString)))))"

section \<open>server.js: generateQuizQuestions\<close>

text \<open>The fallback quiz of lines 123 to 149.\<close>

definition question :: "string \<Rightarrow> string list \<Rightarrow> rat \<Rightarrow> jsval" where
  "question q opts c =
     JObj [(js ''question'', JStr (js q)),
           (js ''options'', JArr (map (\<lambda>opt. JStr (js opt)) opts)),
           (js ''correct'', JNum c)]"

definition fallback_questions :: "jsval list" where
  "fallback_questions =
     [question ''Based on the transcript, what was the main topic discussed?''
        [''Technology'', ''Education'', ''Entertainment'', ''Business''] 0,
      question ''What key concept was emphasized in the content?''
        [''Innovation'', ''Learning'', ''Growth'', ''Success''] 1,
      question ''According to the transcript, what approach was recommended?''
        [''Traditional methods'', ''Modern techniques'', ''Hybrid approach'', ''Custom solutions''] 2,
      question ''What was the primary goal mentioned?''
        [''Efficiency'', ''Quality'', ''Understanding'', ''Implementation''] 2,
      question ''What conclusion can be drawn from the content?''
        [''More research needed'', ''Goals achieved'', ''Progress made'', ''Challenges remain''] 2]"

definition fallback_quiz :: jsval where
  "fallback_quiz = JArr fallback_questions"

text \<open>
  Lines 81 to 88: the bracketed array first, the fenced block (its group) only when
  the first search finds nothing.
\<close>

definition find_json :: "jstring \<Rightarrow> jstring option" where
  "find_json content =
     (case array_match content of
        Some m \<Rightarrow> Some m
      | None \<Rightarrow> fence_match content)"

text \<open>Lines 95 to 150: the direct parse, the repair and second parse, the fallback.\<close>

definition parse_or_repair :: "jstring \<Rightarrow> jsval" where
  "parse_or_repair jsonString =
     (case JSON_parse jsonString of
        Some questions \<Rightarrow> questions
      | None \<Rightarrow>
          (case JSON_parse (repair jsonString) of
             Some questions \<Rightarrow> questions
           | None \<Rightarrow> fallback_quiz))"

text \<open>
  Lines 81 to 150, from the model's output \<open>content\<close>. Only a string has a \<open>match\<close>
  method; on any other value the call raises a TypeError.
\<close>

definition extract_quiz :: "jsval \<Rightarrow> jsval outcome" where
  "extract_quiz content =
     (case content of
        JStr c \<Rightarrow>
          (case find_json c of
             None \<Rightarrow> Throws (Thrown (JError (js ''Could not find valid JSON in AI response'')))
           | Some jsonString \<Rightarrow> Returns (parse_or_repair jsonString))
      | _ \<Rightarrow> Throws TypeError)"

text \<open>
  The request to the text-generation API and its reply. \<open>fetch\<close> is an external
  collaborator: a parameter of the model, and every request made is logged. A reply
  carries the status and what the body readers \<open>text()\<close> and \<open>json()\<close> yield.
\<close>

record api_request =
  req_url :: jstring
  req_method :: jstring
  req_authorization :: jstring
  req_content_type :: jstring
  req_model :: jstring
  req_role :: jstring
  req_content :: jstring

record http_response =
  status :: nat
  body_text :: "jstring outcome"
  body_json :: "jsval outcome"

datatype fetch_reply = Rejects jsval | Responds http_response

definition response_ok :: "http_response \<Rightarrow> bool" where
  "response_ok response \<longleftrightarrow> 200 \<le> status response \<and> status response \<le> 299"

text \<open>The template of lines 20 to 42, line by line; the transcript follows it.\<close>

definition prompt_template :: jstring where
  \<open>prompt_template = join [10] (map js
     [''Based on the following YouTube video transcript, generate exactly 5 multiple-choice quiz questions to help users practice and test their understanding of the content.'',
      [],
      ''IMPORTANT: Respond ONLY with valid JSON. Do not include any explanations, code blocks, or additional text.'',
      [],
      ''Format your response as a JSON array with this exact structure:'',
      ''['',
      ''  {'',
      ''    "question": "Question text here",'',
      ''    "options": ["Option A", "Option B", "Option C", "Option D"],'',
      ''    "correct": 0'',
      ''  }'',
      '']'',
      [],
      ''Requirements:'',
      ''- "correct" is the index (0-3) of the correct answer'',
      ''- Use simple, clear question text without special characters'',
      ''- Avoid quotes within question text and options'',
      ''- Make questions based directly on the transcript content'',
      ''- Include varied difficulty levels'',
      ''- Create plausible wrong answers'',
      [],
      ''Transcript:'',
      []])\<close>

definition quiz_request :: "jstring \<Rightarrow> jstring \<Rightarrow> api_request" where
  "quiz_request key transcript =
     \<lparr>req_url = js ''https://openrouter.ai/api/v1/chat/completions'',
      req_method = js ''POST'',
      req_authorization = js ''Bearer '' @ key,
      req_content_type = js ''application/json'',
      req_model = js ''deepseek/deepseek-r1:free'',
      req_role = js ''user'',
      req_content = prompt_template @ take 3000 transcript\<rparr>"

fun decimal :: "nat \<Rightarrow> jstring" where
  "decimal n = (if n < 10 then [48 + n] else decimal (n div 10) @ [48 + n mod 10])"

text \<open>\<open>v[i]\<close> for an index \<open>i\<close>.\<close>

fun get_index :: "jsval \<Rightarrow> nat \<Rightarrow> jsval outcome" where
  "get_index JUndefined i = Throws TypeError"
| "get_index JNull i = Throws TypeError"
| "get_index (JArr xs) i = Returns (if i < length xs then xs ! i else JUndefined)"
| "get_index (JStr s) i = Returns (if i < length s then JStr [s ! i] else JUndefined)"
| "get_index (JObj kvs) i =
     Returns (case map_of kvs (decimal i) of None \<Rightarrow> JUndefined | Some v \<Rightarrow> v)"
| "get_index (JError m) i = Returns JUndefined"
| "get_index (JBool b) i = Returns JUndefined"
| "get_index (JNum r) i = Returns JUndefined"

definition and_then :: "'a outcome \<Rightarrow> ('a \<Rightarrow> 'b outcome) \<Rightarrow> 'b outcome" where
  "and_then r f = (case r of Throws e \<Rightarrow> Throws e | Returns v \<Rightarrow> f v)"

text \<open>\<open>data.choices[0].message.content\<close> (line 76).\<close>

definition content_of :: "jsval \<Rightarrow> jsval outcome" where
  "content_of data =
     and_then (get_prop data (js ''choices'')) (\<lambda>choices.
     and_then (get_index choices 0) (\<lambda>choice.
     and_then (get_prop choice (js ''message'')) (\<lambda>message.
     get_prop message (js ''content''))))"

text \<open>Lines 62 to 150, once the response has arrived.\<close>

definition read_response :: "http_response \<Rightarrow> jsval outcome" where
  "read_response response =
     (if \<not> response_ok response then
        and_then (body_text response) (\<lambda>errorText.
          if status response = 401 then
            Throws (Thrown (JError (js
              ''Invalid OpenRouter API key. Please check your API key in the .env file.'')))
          else if status response = 429 then
            Throws (Thrown (JError (js ''Rate limit exceeded. Please try again later.'')))
          else
            Throws (Thrown (JError (js ''OpenRouter API error: '' @ decimal (status response)
                                     @ js '' - '' @ errorText))))
      else
        and_then (body_json response) (\<lambda>data.
        and_then (content_of data) extract_quiz))"

text \<open>
  \<open>generateQuizQuestions\<close> (lines 13 to 156). The API key is the environment variable,
  absent (\<open>None\<close>) or a string. The outer \<open>catch\<close> logs and rethrows, so a failure passes
  through unchanged. The result is the settled promise and the requests sent.
\<close>

definition generateQuizQuestions ::
  "jstring option \<Rightarrow> (api_request \<Rightarrow> fetch_reply) \<Rightarrow> jstring
     \<Rightarrow> jsval outcome \<times> api_request list" where
  "generateQuizQuestions OPENROUTER_API_KEY fetch transcript =
     (case OPENROUTER_API_KEY of
        None \<Rightarrow>
          (Throws (Thrown (JError (js
             ''OpenRouter API key not configured. Please add your API key to the .env file.''))),
           [])
      | Some key \<Rightarrow>
          (if key = [] \<or> key = js ''your_openrouter_api_key_here'' then
             (Throws (Thrown (JError (js
                ''OpenRouter API key not configured. Please add your API key to the .env file.''))),
              [])
           else
             (case fetch (quiz_request key transcript) of
                Rejects e \<Rightarrow> (Throws (Thrown e), [quiz_request key transcript])
              | Responds response \<Rightarrow> (read_response response, [quiz_request key transcript]))))"

section \<open>Notions used in the properties\<close>

text \<open>
  A well-formed reply of the text-generation API carrying the model's output, and a
  \<open>fetch\<close> that answers every request with status 200 and that reply (the text of the
  body, which is not read on this path, is left empty).
\<close>

definition completion :: "jstring \<Rightarrow> jsval" where
  "completion content =
     JObj [(js ''choices'',
            JArr [JObj [(js ''message'', JObj [(js ''role'', JStr (js ''assistant'')),
                                               (js ''content'', JStr content)])]])]"

definition api_serving :: "jsval \<Rightarrow> api_request \<Rightarrow> fetch_reply" where
  "api_serving data request =
     Responds \<lparr>status = 200, body_text = Returns [], body_json = Returns data\<rparr>"

text \<open>
  The invariant of a quiz question: four options, all strings, and \<open>correct\<close> an integer
  from 0 to 3 that indexes the options.
\<close>

fun valid_question :: "jsval \<Rightarrow> bool" where
  "valid_question (JObj kvs) =
     (case (map_of kvs (js ''question''), map_of kvs (js ''options''), map_of kvs (js ''correct'')) of
        (Some (JStr q), Some (JArr opts), Some (JNum c)) \<Rightarrow>
          length opts = 4 \<and> list_all is_string opts
          \<and> (c = 0 \<or> c = 1 \<or> c = 2 \<or> c = 3) \<and> nat \<lfloor>c\<rfloor> < length opts
      | _ \<Rightarrow> False)"
| "valid_question v = False"

text \<open>Model outputs used as examples.\<close>

definition prose_output :: jstring where
  \<open>prose_output = js ''Sure! [{"question":"Q","options":["A","B","C","D"],"correct":1}]''\<close>

definition escaped_quotes_array :: jstring where
  \<open>escaped_quotes_array =
     js ''[{"question":"What does '' @ [92] @ js ''"DNS'' @ [92]
     @ js ''" stand for?","options":["A","B","C","D"],"correct":0,}]''\<close>

definition escaped_quotes_output :: jstring where
  \<open>escaped_quotes_output = js ''```json\<newline>'' @ escaped_quotes_array @ js ''\<newline>```''\<close>

definition escaped_quotes_valid :: jstring where
  \<open>escaped_quotes_valid =
     js ''[{"question":"What does '' @ [92] @ js ''"DNS'' @ [92]
     @ js ''" stand for?","options":["A","B","C","D"],"correct":0}]''\<close>

section \<open>Auxiliary lemmas\<close>

lemmas eval_defs = js_def extract_quiz_def find_json_def upto_last_def parse_or_repair_def
  JSON_parse_def json_ws_def push_def is_digit_def cons_char_def number_value_def num_char_def
  digits_value_def value_ok_def unescape_def unicode_escape_def hex_value_def
  repair_def trim_def newlines_to_spaces_def is_space_def question_def

lemma replicate_numeral: "replicate (numeral k) x = x # replicate (pred_numeral k) x"
  by (simp add: numeral_eq_Suc)

subsection \<open>The catch block\<close>

lemma handle_error_invalid:
  "handle_error (JError (js ''Invalid video ID provided''))
     = Returns (error_object ''Invalid YouTube video ID provided'')"
  by (simp add: handle_error_def js_def)

lemma handle_error_of_Error: "\<exists>msg. handle_error (JError m) = Returns (error_object msg)"
  by (auto simp: handle_error_def split: bool.splits)

subsection \<open>The two searches\<close>

lemma array_match_None_iff:
  "array_match cs = None \<longleftrightarrow> (\<forall>pre post. cs = pre @ 91 # post \<longrightarrow> 93 \<notin> set post)"
proof (induction cs)
  case Nil
  then show ?case by simp
next
  case (Cons c cs)
  show ?case
  proof
    assume none: "array_match (c # cs) = None"
    then have here: "\<not> (c = 91 \<and> 93 \<in> set cs)" and later: "array_match cs = None"
      by (auto split: if_splits)
    show "\<forall>pre post. c # cs = pre @ 91 # post \<longrightarrow> 93 \<notin> set post"
    proof (intro allI impI)
      fix pre post
      assume eq: "c # cs = pre @ 91 # post"
      show "93 \<notin> set post"
      proof (cases pre)
        case Nil
        with eq here show ?thesis by auto
      next
        case (Cons p pre')
        with eq have "cs = pre' @ 91 # post" by simp
        with later Cons.IH show ?thesis by blast
      qed
    qed
  next
    assume all: "\<forall>pre post. c # cs = pre @ 91 # post \<longrightarrow> 93 \<notin> set post"
    have here: "\<not> (c = 91 \<and> 93 \<in> set cs)"
      using all [rule_format, of "[]" cs] by auto
    have "\<forall>pre post. cs = pre @ 91 # post \<longrightarrow> 93 \<notin> set post"
      using all by (metis append_Cons)
    with Cons.IH have "array_match cs = None" by blast
    with here show "array_match (c # cs) = None" by auto
  qed
qed

lemma lazy_close_has_bracket: "lazy_close cs = Some g \<Longrightarrow> 93 \<in> set cs"
  by (induction cs arbitrary: g) (auto split: if_splits)

lemma fence_group_has_pair:
  assumes "fence_group r = Some g"
  shows "\<exists>pre post. r = pre @ 91 # post \<and> 93 \<in> set post"
proof -
  from assms obtain cs g' where dw: "dropWhile is_space r = 91 # cs"
    and lc: "lazy_close cs = Some g'"
    by (auto simp: fence_group_def split: list.splits if_splits)
  have "r = takeWhile is_space r @ 91 # cs"
    using takeWhile_dropWhile_id [of is_space r] dw by simp
  with lc show ?thesis using lazy_close_has_bracket by blast
qed

lemma drop_has_pair:
  assumes "\<exists>pre post. drop n s = pre @ 91 # post \<and> 93 \<in> set post"
  shows "\<exists>pre post. s = pre @ 91 # post \<and> 93 \<in> set post"
proof -
  from assms obtain pre post where d: "drop n s = pre @ 91 # post" and p: "93 \<in> set post"
    by blast
  have "s = (take n s @ pre) @ 91 # post"
    using append_take_drop_id [of n s] d by simp
  with p show ?thesis by blast
qed

lemma fence_at_has_pair:
  assumes "fence_at s = Some g"
  shows "\<exists>pre post. s = pre @ 91 # post \<and> 93 \<in> set post"
proof -
  from assms have "fence_group (drop 7 s) = Some g \<or> fence_group (drop 3 s) = Some g"
    by (auto simp: fence_at_def split: if_splits option.splits)
  then show ?thesis
    using fence_group_has_pair drop_has_pair by blast
qed

lemma fence_match_has_pair:
  "fence_match cs = Some g \<Longrightarrow> \<exists>pre post. cs = pre @ 91 # post \<and> 93 \<in> set post"
proof (induction cs)
  case Nil
  then show ?case by simp
next
  case (Cons c cs)
  show ?case
  proof (cases "fence_at (c # cs)")
    case (Some g')
    then show ?thesis using fence_at_has_pair by blast
  next
    case None
    with Cons.prems have "fence_match cs = Some g" by simp
    with Cons.IH obtain pre post where "cs = pre @ 91 # post" "93 \<in> set post" by blast
    then have "c # cs = (c # pre) @ 91 # post" by simp
    with \<open>93 \<in> set post\<close> show ?thesis by blast
  qed
qed

lemma fence_match_None: "array_match cs = None \<Longrightarrow> fence_match cs = None"
proof (rule ccontr)
  assume none: "array_match cs = None" and "fence_match cs \<noteq> None"
  then obtain g where "fence_match cs = Some g" by blast
  from fence_match_has_pair [OF this] none show False
    unfolding array_match_None_iff by blast
qed

lemma pair_positions:
  "(\<exists>pre post. (cs :: jstring) = pre @ 91 # post \<and> 93 \<in> set post)
   \<longleftrightarrow> (\<exists>i j. i < j \<and> j < length cs \<and> cs ! i = 91 \<and> cs ! j = 93)"
proof
  assume "\<exists>pre post. cs = pre @ 91 # post \<and> 93 \<in> set post"
  then obtain pre post where cs: "cs = pre @ 91 # post" and "93 \<in> set post" by blast
  then obtain k where k: "k < length post" "post ! k = 93" by (auto simp: in_set_conv_nth)
  have "cs ! length pre = 91" using cs by simp
  moreover have "cs ! (length pre + Suc k) = 93" using cs k by (simp add: nth_append)
  moreover have "length pre + Suc k < length cs" using cs k by simp
  moreover have "length pre < length pre + Suc k" by simp
  ultimately show "\<exists>i j. i < j \<and> j < length cs \<and> cs ! i = 91 \<and> cs ! j = 93"
    by blast
next
  assume "\<exists>i j. i < j \<and> j < length cs \<and> cs ! i = 91 \<and> cs ! j = 93"
  then obtain i j where ij: "i < j" "j < length cs" "cs ! i = 91" "cs ! j = 93" by blast
  then have "cs = take i cs @ 91 # drop (Suc i) cs"
    by (metis id_take_nth_drop less_trans)
  moreover have "drop (Suc i) cs ! (j - Suc i) = 93" using ij by simp
  then have "93 \<in> set (drop (Suc i) cs)"
    using ij by (metis Suc_leI diff_less_mono in_set_conv_nth length_drop)
  ultimately show "\<exists>pre post. cs = pre @ 91 # post \<and> 93 \<in> set post" by blast
qed

subsection \<open>From the reply to the extraction\<close>

lemma content_of_completion: "content_of (completion content) = Returns (JStr content)"
  by (simp add: content_of_def completion_def and_then_def js_def)

lemma read_response_content:
  assumes "response_ok response" and "body_json response = Returns data"
    and "content_of data = Returns content"
  shows "read_response response = extract_quiz content"
  using assms by (simp add: read_response_def and_then_def)

lemma generate_with_content:
  assumes "key \<noteq> []" and "key \<noteq> js ''your_openrouter_api_key_here''"
    and "fetch (quiz_request key transcript) = Responds response"
    and "response_ok response" and "body_json response = Returns data"
    and "content_of data = Returns content"
  shows "generateQuizQuestions (Some key) fetch transcript
           = (extract_quiz content, [quiz_request key transcript])"
  using assms by (simp add: generateQuizQuestions_def read_response_content)

lemma generate_served:
  assumes "key \<noteq> []" and "key \<noteq> js ''your_openrouter_api_key_here''"
  shows "generateQuizQuestions (Some key) (api_serving (completion content)) transcript
           = (extract_quiz (JStr content), [quiz_request key transcript])"
  using assms
  by (intro generate_with_content
        [where response = "\<lparr>status = 200, body_text = Returns [],
                            body_json = Returns (completion content)\<rparr>"
           and data = "completion content"])
     (simp_all add: api_serving_def response_ok_def content_of_completion)

lemma key_ok:
  "js ''sk-or-v1-test'' \<noteq> [] \<and> js ''sk-or-v1-test'' \<noteq> js ''your_openrouter_api_key_here''"
  by (simp add: js_def)

section \<open>Properties of transcript.js\<close>

text \<open>
  Claim C8. For every \<open>videoId\<close> that is missing, not a string, or the empty string,
  \<open>getYouTubeTranscript\<close> resolves to the object
  \<open>{error: "Invalid YouTube video ID provided"}\<close>, and no query is sent to the captions
  provider.
\<close>

theorem invalid_video_id:
  "\<not> truthy videoId \<or> \<not> is_string videoId \<Longrightarrow>
   getYouTubeTranscript getSubtitles videoId =
     (Returns (error_object ''Invalid YouTube video ID provided''), [])"
  unfolding getYouTubeTranscript_def by (simp add: handle_error_invalid)

theorem invalid_video_id_witness:
  "getYouTubeTranscript (\<lambda>q. Captions []) JUndefined =
     (Returns (error_object ''Invalid YouTube video ID provided''), [])
   \<and> getYouTubeTranscript (\<lambda>q. Captions []) (JStr []) =
     (Returns (error_object ''Invalid YouTube video ID provided''), [])
   \<and> getYouTubeTranscript (\<lambda>q. Captions []) (JNum 42) =
     (Returns (error_object ''Invalid YouTube video ID provided''), [])"
  using invalid_video_id [of JUndefined "\<lambda>q. Captions []"]
        invalid_video_id [of "JStr []" "\<lambda>q. Captions []"]
        invalid_video_id [of "JNum 42" "\<lambda>q. Captions []"]
  by simp

text \<open>
  Claim C2 says that no failure ever leaves \<open>getYouTubeTranscript\<close>. The catch block
  reads \<open>error.message.includes\<close> of whatever was thrown: when the provider rejects with
  a value that is not an \<open>Error\<close> (here a string), \<open>error.message\<close> is \<open>undefined\<close>, the
  call of \<open>includes\<close> raises a TypeError inside the catch block, and the promise is
  rejected.
\<close>

theorem thrown_string_escapes:
  "getYouTubeTranscript (\<lambda>q. Fails (JStr (js ''socket hang up''))) (JStr (js ''dQw4w9WgXcQ''))
     = (Throws TypeError, [\<lparr>videoID = js ''dQw4w9WgXcQ'', lang = js ''en''\<rparr>])"
  by (simp add: getYouTubeTranscript_def handle_error_def js_def)

theorem thrown_string_escapes_witness:
  "truthy (JStr (js ''dQw4w9WgXcQ'')) \<and> is_string (JStr (js ''dQw4w9WgXcQ''))
   \<and> fst (getYouTubeTranscript (\<lambda>q. Fails (JStr (js ''socket hang up'')))
          (JStr (js ''dQw4w9WgXcQ''))) = Throws TypeError"
  using thrown_string_escapes by (simp add: js_def)

text \<open>
  Claim C3, amended. For every valid \<open>videoId\<close> and every non-empty provider result,
  the count is the number of pieces of the concatenated transcript between single space
  characters (\<open>transcript.split(' ').length\<close>); whenever that count is below 50 the
  function resolves to \<open>{error: "Not enough reliable information in the transcript"}\<close>
  instead of the transcript.
\<close>

theorem short_transcript_rejected:
  assumes "truthy videoId" and "is_string videoId"
    and "getSubtitles \<lparr>videoID = string_of videoId, lang = js ''en''\<rparr> = Captions captions"
    and "captions \<noteq> []"
    and "length (split_on 32 (join (js '' '') (map caption_text captions))) < 50"
  shows "getYouTubeTranscript getSubtitles videoId =
     (Returns (error_object ''Not enough reliable information in the transcript''),
      [\<lparr>videoID = string_of videoId, lang = js ''en''\<rparr>])"
  using assms unfolding getYouTubeTranscript_def by (simp add: Let_def)

theorem short_transcript_rejected_witness:
  "getYouTubeTranscript (\<lambda>q. Captions [\<lparr>caption_text = js ''never gonna give you up''\<rparr>])
     (JStr (js ''dQw4w9WgXcQ''))
   = (Returns (error_object ''Not enough reliable information in the transcript''),
      [\<lparr>videoID = js ''dQw4w9WgXcQ'', lang = js ''en''\<rparr>])"
  using short_transcript_rejected
    [of "JStr (js ''dQw4w9WgXcQ'')" "\<lambda>q. Captions [\<lparr>caption_text = js ''never gonna give you up''\<rparr>]"
        "[\<lparr>caption_text = js ''never gonna give you up''\<rparr>]"]
  by (simp add: js_def)

text \<open>
  The claim as stated fails: twenty fragments \<open>uh  huh\<close> (two spaces) make a transcript of
  40 words when it is split on whitespace, yet it has 60 pieces between single spaces,
  and the transcript is returned.
\<close>

theorem whitespace_count_counterexample:
  "length (whitespace_words
     (join (js '' '') (map caption_text (replicate 20 \<lparr>caption_text = js ''uh  huh''\<rparr>)))) = 40
   \<and> getYouTubeTranscript (\<lambda>q. Captions (replicate 20 \<lparr>caption_text = js ''uh  huh''\<rparr>))
        (JStr (js ''dQw4w9WgXcQ''))
     = (Returns (JStr
          (join (js '' '') (map caption_text (replicate 20 \<lparr>caption_text = js ''uh  huh''\<rparr>)))),
        [\<lparr>videoID = js ''dQw4w9WgXcQ'', lang = js ''en''\<rparr>])"
  by (simp add: getYouTubeTranscript_def js_def is_space_def replicate_numeral)

text \<open>
  Claim C4, amended. For every valid \<open>videoId\<close> and every provider result whose
  concatenated text has at least 50 pieces between single space characters
  (\<open>transcript.split(' ').length\<close>), the function resolves to exactly the fragment
  texts joined with a single space, in the provider's order.
\<close>

theorem long_transcript_returned:
  assumes "truthy videoId" and "is_string videoId"
    and "getSubtitles \<lparr>videoID = string_of videoId, lang = js ''en''\<rparr> = Captions captions"
    and "captions \<noteq> []"
    and "50 \<le> length (split_on 32 (join (js '' '') (map caption_text captions)))"
  shows "getYouTubeTranscript getSubtitles videoId =
     (Returns (JStr (join (js '' '') (map caption_text captions))),
      [\<lparr>videoID = string_of videoId, lang = js ''en''\<rparr>])"
  using assms unfolding getYouTubeTranscript_def by (simp add: Let_def)

lemma fifty_fragments:
  "50 \<le> length (split_on 32 (join (js '' '')
      (map caption_text (replicate 50 \<lparr>caption_text = js ''word''\<rparr>))))"
  by (simp add: js_def replicate_numeral)

theorem long_transcript_returned_witness:
  "getYouTubeTranscript (\<lambda>q. Captions (replicate 50 \<lparr>caption_text = js ''word''\<rparr>))
     (JStr (js ''dQw4w9WgXcQ''))
   = (Returns (JStr (join (js '' '') (map caption_text (replicate 50 \<lparr>caption_text = js ''word''\<rparr>)))),
      [\<lparr>videoID = js ''dQw4w9WgXcQ'', lang = js ''en''\<rparr>])"
  using long_transcript_returned
    [of "JStr (js ''dQw4w9WgXcQ'')" "\<lambda>q. Captions (replicate 50 \<lparr>caption_text = js ''word''\<rparr>)"
        "replicate 50 \<lparr>caption_text = js ''word''\<rparr>"] fifty_fragments
  by (simp add: js_def)

text \<open>
  The claim as stated fails: ten fragments of five words each, the words of a fragment
  separated by line breaks, make a transcript of 50 words, yet it has only 10 pieces
  between single spaces, and the error object is returned.
\<close>

theorem line_break_words_counterexample:
  "length (whitespace_words (join (js '' '') (map caption_text
      (replicate 10 \<lparr>caption_text = js ''one\<newline>two\<newline>three\<newline>four\<newline>five''\<rparr>)))) = 50
   \<and> getYouTubeTranscript
        (\<lambda>q. Captions (replicate 10
           \<lparr>caption_text = js ''one\<newline>two\<newline>three\<newline>four\<newline>five''\<rparr>))
        (JStr (js ''dQw4w9WgXcQ''))
     = (Returns (error_object ''Not enough reliable information in the transcript''),
        [\<lparr>videoID = js ''dQw4w9WgXcQ'', lang = js ''en''\<rparr>])"
  by (simp add: getYouTubeTranscript_def js_def is_space_def replicate_numeral)

section \<open>Properties of server.js\<close>

text \<open>
  Claim C7. Whenever the API key is absent, empty or the placeholder
  \<open>your_openrouter_api_key_here\<close>, \<open>generateQuizQuestions\<close> throws the error
  "OpenRouter API key not configured ..." for every transcript, and no request is sent.
\<close>

theorem missing_credential:
  "key = None \<or> key = Some [] \<or> key = Some (js ''your_openrouter_api_key_here'') \<Longrightarrow>
   generateQuizQuestions key fetch transcript
     = (Throws (Thrown (JError (js
          ''OpenRouter API key not configured. Please add your API key to the .env file.''))), [])"
  by (auto simp: generateQuizQuestions_def)

theorem missing_credential_witness:
  "generateQuizQuestions None (api_serving (completion (js ''[]''))) (js ''a transcript'')
     = (Throws (Thrown (JError (js
          ''OpenRouter API key not configured. Please add your API key to the .env file.''))), [])
   \<and> generateQuizQuestions (Some (js ''your_openrouter_api_key_here''))
        (api_serving (completion (js ''[]''))) (js ''a transcript'')
     = (Throws (Thrown (JError (js
          ''OpenRouter API key not configured. Please add your API key to the .env file.''))), [])"
  using missing_credential [of None "api_serving (completion (js ''[]''))" "js ''a transcript''"]
        missing_credential [of "Some (js ''your_openrouter_api_key_here'')"
          "api_serving (completion (js ''[]''))" "js ''a transcript''"]
  by simp

text \<open>
  Claim C9. When the search for a bracketed array finds nothing, the search for a fenced
  block finds nothing either, so the fenced branch never yields a candidate; and the
  extraction reaches the branch "Could not find valid JSON in AI response" exactly when
  the content has no opening bracket followed, later, by a closing bracket.
\<close>

theorem fenced_branch_never_taken:
  "(array_match content = None \<longrightarrow> fence_match content = None)
   \<and> (find_json content = None
        \<longleftrightarrow> \<not> (\<exists>i j. i < j \<and> j < length content \<and> content ! i = 91 \<and> content ! j = 93))
   \<and> (extract_quiz (JStr content)
          = Throws (Thrown (JError (js ''Could not find valid JSON in AI response'')))
        \<longleftrightarrow> \<not> (\<exists>i j. i < j \<and> j < length content \<and> content ! i = 91 \<and> content ! j = 93))"
proof -
  have a: "array_match content = None \<longrightarrow> fence_match content = None"
    by (simp add: fence_match_None)
  have b: "find_json content = None
        \<longleftrightarrow> \<not> (\<exists>i j. i < j \<and> j < length content \<and> content ! i = 91 \<and> content ! j = 93)"
  proof -
    have "find_json content = None \<longleftrightarrow> array_match content = None"
      using a by (auto simp: find_json_def split: option.splits)
    also have "\<dots> \<longleftrightarrow> \<not> (\<exists>pre post. content = pre @ 91 # post \<and> 93 \<in> set post)"
      unfolding array_match_None_iff by blast
    finally show ?thesis unfolding pair_positions .
  qed
  have c: "extract_quiz (JStr content)
          = Throws (Thrown (JError (js ''Could not find valid JSON in AI response'')))
        \<longleftrightarrow> find_json content = None"
    by (auto simp: extract_quiz_def split: option.splits)
  from a b c show ?thesis by simp
qed

theorem fenced_branch_never_taken_witness:
  "array_match (js ''```json {} ```'') = None
   \<and> fence_match (js ''```json {} ```'') = None
   \<and> find_json (js ''```json {} ```'') = None
   \<and> extract_quiz (JStr (js ''```json {} ```''))
        = Throws (Thrown (JError (js ''Could not find valid JSON in AI response'')))"
proof -
  have m: "array_match (js ''```json {} ```'') = None" by (simp add: js_def)
  with fenced_branch_never_taken [of "js ''```json {} ```''"]
  show ?thesis by (simp add: find_json_def extract_quiz_def)
qed

text \<open>
  Claim C1, amended. For every model output in which neither search finds a candidate,
  \<open>generateQuizQuestions\<close> throws the error "Could not find valid JSON in AI response"
  to its caller; the fallback quiz is not returned.
\<close>

theorem no_json_is_thrown:
  assumes "key \<noteq> []" and "key \<noteq> js ''your_openrouter_api_key_here''"
    and "fetch (quiz_request key transcript) = Responds response"
    and "response_ok response" and "body_json response = Returns data"
    and "content_of data = Returns (JStr content)"
    and "array_match content = None" and "fence_match content = None"
  shows "generateQuizQuestions (Some key) fetch transcript
           = (Throws (Thrown (JError (js ''Could not find valid JSON in AI response''))),
              [quiz_request key transcript])"
  using assms by (simp add: generate_with_content extract_quiz_def find_json_def)

lemma refusal_no_match:
  "array_match (js ''I am sorry, I cannot help with that.'') = None"
  by (simp add: js_def)

theorem no_json_is_thrown_witness:
  "generateQuizQuestions (Some (js ''sk-or-v1-test''))
     (api_serving (completion (js ''I am sorry, I cannot help with that.''))) (js ''a transcript'')
   = (Throws (Thrown (JError (js ''Could not find valid JSON in AI response''))),
      [quiz_request (js ''sk-or-v1-test'') (js ''a transcript'')])"
  by (rule no_json_is_thrown
        [where response = "\<lparr>status = 200, body_text = Returns [],
             body_json = Returns (completion (js ''I am sorry, I cannot help with that.''))\<rparr>"
           and data = "completion (js ''I am sorry, I cannot help with that.'')"
           and content = "js ''I am sorry, I cannot help with that.''"])
     (simp_all add: key_ok api_serving_def response_ok_def content_of_completion
        refusal_no_match fence_match_None)

text \<open>
  The claim as stated fails: on an output without brackets and without a fence the
  function throws, and what it yields is not the fallback quiz.
\<close>

theorem no_json_fallback_counterexample:
  "array_match (js ''The transcript is too short to write a quiz.'') = None
   \<and> fence_match (js ''The transcript is too short to write a quiz.'') = None
   \<and> fst (generateQuizQuestions (Some (js ''sk-or-v1-test''))
        (api_serving (completion (js ''The transcript is too short to write a quiz.'')))
        (js ''a transcript''))
      = Throws (Thrown (JError (js ''Could not find valid JSON in AI response'')))
   \<and> fst (generateQuizQuestions (Some (js ''sk-or-v1-test''))
        (api_serving (completion (js ''The transcript is too short to write a quiz.'')))
        (js ''a transcript''))
      \<noteq> Returns fallback_quiz"
proof -
  have m: "array_match (js ''The transcript is too short to write a quiz.'') = None"
    by (simp add: js_def)
  show ?thesis
    by (simp add: generate_served key_ok m fence_match_None extract_quiz_def find_json_def)
qed

text \<open>
  Claim C6. On the output
  \<open>Sure! [{"question":"Q","options":["A","B","C","D"],"correct":1}]\<close> the greedy bracket
  search finds the array, the direct parse succeeds, and the function returns a quiz of
  one question whose \<open>correct\<close> is 1.
\<close>

theorem prose_then_array_parsed:
  \<open>array_match prose_output
     = Some (js ''[{"question":"Q","options":["A","B","C","D"],"correct":1}]'')
   \<and> JSON_parse (js ''[{"question":"Q","options":["A","B","C","D"],"correct":1}]'')
     = Some (JArr [question ''Q'' [''A'', ''B'', ''C'', ''D''] 1])
   \<and> generateQuizQuestions (Some (js ''sk-or-v1-test'')) (api_serving (completion prose_output))
        (js ''a transcript'')
     = (Returns (JArr [question ''Q'' [''A'', ''B'', ''C'', ''D''] 1]),
        [quiz_request (js ''sk-or-v1-test'') (js ''a transcript'')])
   \<and> get_prop (question ''Q'' [''A'', ''B'', ''C'', ''D''] 1) (js ''correct'') = Returns (JNum 1)\<close>
proof -
  have m: \<open>array_match prose_output
     = Some (js ''[{"question":"Q","options":["A","B","C","D"],"correct":1}]'')\<close>
    by (simp add: prose_output_def js_def upto_last_def)
  have p: \<open>JSON_parse (js ''[{"question":"Q","options":["A","B","C","D"],"correct":1}]'')
     = Some (JArr [question ''Q'' [''A'', ''B'', ''C'', ''D''] 1])\<close>
    by (simp add: eval_defs)
  have g: "get_prop (question ''Q'' [''A'', ''B'', ''C'', ''D''] 1) (js ''correct'')
             = Returns (JNum 1)"
    by (simp add: question_def js_def)
  show ?thesis
    by (simp add: generate_served key_ok extract_quiz_def find_json_def parse_or_repair_def m p g)
qed

text \<open>
  Claim C10. The fallback quiz has exactly 5 questions; each has exactly 4 options, and
  its \<open>correct\<close> is an integer from 0 to 3 that indexes the options.
\<close>

theorem fallback_quiz_valid:
  "fallback_quiz = JArr fallback_questions \<and> length fallback_questions = 5
   \<and> list_all valid_question fallback_questions"
  by (simp add: fallback_quiz_def fallback_questions_def question_def js_def)

text \<open>
  Claim C5 as stated fails. The array below is valid JSON but for the comma before the
  closing brace, and its question holds escaped quotes. The repair removes the comma,
  but its second step also removes the backslashes, so the quotes end the string early:
  the second parse fails as well and the fallback quiz is returned.
\<close>

theorem escaped_quotes_counterexample:
  \<open>find_json escaped_quotes_output = Some escaped_quotes_array
   \<and> JSON_parse escaped_quotes_valid
       = Some (JArr [question ''What does "DNS" stand for?'' [''A'', ''B'', ''C'', ''D''] 0])
   \<and> JSON_parse escaped_quotes_array = None
   \<and> repair escaped_quotes_array
       = js ''[{"question":"What does "DNS" stand for?","options":["A","B","C","D"],"correct":0}]''
   \<and> JSON_parse (repair escaped_quotes_array) = None
   \<and> generateQuizQuestions (Some (js ''sk-or-v1-test''))
        (api_serving (completion escaped_quotes_output)) (js ''a transcript'')
       = (Returns fallback_quiz, [quiz_request (js ''sk-or-v1-test'') (js ''a transcript'')])\<close>
proof -
  have f: "find_json escaped_quotes_output = Some escaped_quotes_array"
    by (simp add: escaped_quotes_output_def escaped_quotes_array_def js_def find_json_def
          upto_last_def)
  have v: \<open>JSON_parse escaped_quotes_valid
       = Some (JArr [question ''What does "DNS" stand for?'' [''A'', ''B'', ''C'', ''D''] 0])\<close>
    by (simp add: escaped_quotes_valid_def eval_defs)
  have d: "JSON_parse escaped_quotes_array = None"
    by (simp add: escaped_quotes_array_def eval_defs)
  have r: \<open>repair escaped_quotes_array
       = js ''[{"question":"What does "DNS" stand for?","options":["A","B","C","D"],"correct":0}]''\<close>
    by (simp add: escaped_quotes_array_def repair_def trim_def newlines_to_spaces_def
          is_space_def js_def)
  have s: "JSON_parse (repair escaped_quotes_array) = None"
    unfolding r by (simp add: eval_defs)
  show ?thesis
    by (simp add: generate_served key_ok extract_quiz_def parse_or_repair_def f v d r s [unfolded r])
qed

end
